theory Spec2Isabelle
  imports Complex_Main
begin

section \<open>The car price prediction service (app.py)\<close>

text \<open>
  The program is one Flask module. At import it unpickles a regression model into the
  module global \<open>model\<close>; it registers two views, \<open>index\<close> on \<open>/\<close> and
  \<open>predict_placement\<close> on \<open>/predict\<close> (POST); the latter reads six form fields,
  converts each with \<open>float\<close>, prints the vector, calls \<open>model.predict\<close> on the
  vector reshaped to one row of six, prints the result and returns \<open>str(result[0])\<close>.

  What the module calls but does not define is taken as a parameter: Python's \<open>float\<close>
  on a string (\<open>float_str\<close>, \<open>None\<close> where Python raises ValueError), Python's
  \<open>str\<close> on an element of the predictor's output (\<open>str_of\<close>), and the unpickled
  predictor itself, a function from a two-dimensional array (a list of rows) to an
  array of predictions. The types \<open>'f\<close> of floats and \<open>'r\<close> of predictions are
  left open, so that nothing below depends on binary64 arithmetic.
\<close>

subsection \<open>Errors, responses, effects and the process state\<close>

text \<open>
  The exceptions the handler's own operations can raise: \<open>float(None)\<close> is a
  TypeError, \<open>float\<close> of a string that is no float literal is a ValueError,
  \<open>result[0]\<close> on an empty array is an IndexError, and reading the global
  \<open>model\<close> before it is bound is a NameError. An exception that leaves a view is
  answered by Flask as a server error: the response \<open>Fault\<close>.
\<close>

datatype error = TypeError | ValueError | IndexError | NameError

datatype response = Body string | Template string | Fault error

text \<open>
  The observable effects of a request, in the order the code performs them: the two
  \<open>print\<close> calls (kept as the values printed, not as their text) and the call of
  \<open>model.predict\<close> with its argument.
\<close>

datatype ('f, 'r) effect =
    Print_input "'f list"
  | Predict_call "'f list list"
  | Print_prediction "'r list"

datatype phase = Importing | Serving | Exited

text \<open>
  The process: where it is in its life (\<open>phase\<close>), the module global \<open>model\<close>
  (\<open>None\<close> while unbound), how often \<open>pickle.load\<close> has returned a predictor
  (\<open>loads\<close>), and the effects performed so far (\<open>effects\<close>).
\<close>

record ('f, 'r) process =
  phase :: phase
  model :: "('f list list \<Rightarrow> 'r list) option"
  loads :: nat
  effects :: "('f, 'r) effect list"

subsection \<open>The form and the float conversion\<close>

text \<open>
  \<open>request.form\<close> is a multi-dictionary: an ordered list of (name, value) pairs in
  which a name may occur more than once. \<open>form.get(k)\<close> is the first value stored
  under \<open>k\<close>, or \<open>None\<close>.
\<close>

type_synonym form = "(string \<times> string) list"

definition form_get :: "form \<Rightarrow> string \<Rightarrow> string option" where
  "form_get f k = map_of f k"

definition field_names :: "string list" where
  "field_names =
     [''carlength'', ''carwidth'', ''carheight'', ''enginesize'', ''horsepower'', ''peakrpm'']"

text \<open>\<open>float(x)\<close> for \<open>x\<close> the result of \<open>form.get\<close>: \<open>None\<close> or a string.\<close>

definition float_arg :: "(string \<Rightarrow> 'f option) \<Rightarrow> string option \<Rightarrow> error + 'f" where
  "float_arg float_str x =
     (case x of
        None \<Rightarrow> Inl TypeError
      | Some s \<Rightarrow> (case float_str s of None \<Rightarrow> Inl ValueError | Some v \<Rightarrow> Inr v))"

subsection \<open>The two views\<close>

definition index :: "('f, 'r) process \<Rightarrow> response \<times> ('f, 'r) process" where
  "index s = (Template ''index.html'', s)"

definition predict_placement ::
  "(string \<Rightarrow> 'f option) \<Rightarrow> ('r \<Rightarrow> string) \<Rightarrow> form \<Rightarrow> ('f, 'r) process
     \<Rightarrow> response \<times> ('f, 'r) process" where
  "predict_placement float_str str_of frm s =
     (case float_arg float_str (form_get frm ''carlength'') of
        Inl e \<Rightarrow> (Fault e, s)
      | Inr carlength \<Rightarrow>
     (case float_arg float_str (form_get frm ''carwidth'') of
        Inl e \<Rightarrow> (Fault e, s)
      | Inr carwidth \<Rightarrow>
     (case float_arg float_str (form_get frm ''carheight'') of
        Inl e \<Rightarrow> (Fault e, s)
      | Inr carheight \<Rightarrow>
     (case float_arg float_str (form_get frm ''enginesize'') of
        Inl e \<Rightarrow> (Fault e, s)
      | Inr enginesize \<Rightarrow>
     (case float_arg float_str (form_get frm ''horsepower'') of
        Inl e \<Rightarrow> (Fault e, s)
      | Inr horsepower \<Rightarrow>
     (case float_arg float_str (form_get frm ''peakrpm'') of
        Inl e \<Rightarrow> (Fault e, s)
      | Inr peakrpm \<Rightarrow>
          (let row = [carlength, carwidth, carheight, enginesize, horsepower, peakrpm];
               s1 = s\<lparr>effects := effects s @ [Print_input row]\<rparr>
           in case model s1 of
                None \<Rightarrow> (Fault NameError, s1)
              | Some m \<Rightarrow>
                  (let X = [row];
                       result = m X;
                       s2 = s1\<lparr>effects := effects s1 @ [Predict_call X]\<rparr>;
                       s3 = s2\<lparr>effects := effects s2 @ [Print_prediction result]\<rparr>
                   in case result of
                        [] \<Rightarrow> (Fault IndexError, s3)
                      | r # _ \<Rightarrow> (Body (str_of r), s3)))))))))"

subsection \<open>Routing and the life of the process\<close>

text \<open>A request that Flask's router hands to one of the two registered views.\<close>

datatype request = Get_index | Post_predict form

definition handle ::
  "(string \<Rightarrow> 'f option) \<Rightarrow> ('r \<Rightarrow> string) \<Rightarrow> ('f, 'r) process \<Rightarrow> request
     \<Rightarrow> response \<times> ('f, 'r) process" where
  "handle float_str str_of s req =
     (case req of
        Get_index \<Rightarrow> index s
      | Post_predict frm \<Rightarrow> predict_placement float_str str_of frm s)"

text \<open>Serving a sequence of requests one after the other.\<close>

fun serve_all ::
  "(string \<Rightarrow> 'f option) \<Rightarrow> ('r \<Rightarrow> string) \<Rightarrow> ('f, 'r) process \<Rightarrow> request list
     \<Rightarrow> ('f, 'r) process" where
  "serve_all float_str str_of s [] = s"
| "serve_all float_str str_of s (req # reqs) =
     serve_all float_str str_of (snd (handle float_str str_of s req)) reqs"

text \<open>
  The module's top level, as the actions of the process. \<open>Import\<close> runs line 6,
  \<open>model = pickle.load(open('model_1.pkl', 'rb'))\<close>, on what the file holds
  (\<open>None\<close>: the file is missing or is no pickle, the exception ends the process
  before \<open>app.run\<close>); it is the module's first statement and runs only while the
  module is being imported. \<open>Serve\<close> is one request answered by the running
  application; \<open>Exit\<close> ends the process. An action that the process cannot take in
  its phase gives \<open>None\<close>.
\<close>

datatype ('f, 'r) action =
    Import "('f list list \<Rightarrow> 'r list) option"
  | Serve request
  | Exit

definition initial :: "('f, 'r) process" where
  "initial = \<lparr>phase = Importing, model = None, loads = 0, effects = []\<rparr>"

fun step ::
  "(string \<Rightarrow> 'f option) \<Rightarrow> ('r \<Rightarrow> string) \<Rightarrow> ('f, 'r) process \<Rightarrow> ('f, 'r) action
     \<Rightarrow> ('f, 'r) process option" where
  "step float_str str_of s (Import artifact) =
     (if phase s = Importing then
        (case artifact of
           None \<Rightarrow> Some (s\<lparr>phase := Exited\<rparr>)
         | Some m \<Rightarrow> Some (s\<lparr>phase := Serving, model := Some m, loads := Suc (loads s)\<rparr>))
      else None)"
| "step float_str str_of s (Serve req) =
     (if phase s = Serving then Some (snd (handle float_str str_of s req)) else None)"
| "step float_str str_of s Exit =
     (if phase s = Exited then None else Some (s\<lparr>phase := Exited\<rparr>))"

fun execute ::
  "(string \<Rightarrow> 'f option) \<Rightarrow> ('r \<Rightarrow> string) \<Rightarrow> ('f, 'r) process \<Rightarrow> ('f, 'r) action list
     \<Rightarrow> ('f, 'r) process option" where
  "execute float_str str_of s [] = Some s"
| "execute float_str str_of s (a # as) =
     (case step float_str str_of s a of
        None \<Rightarrow> None
      | Some t \<Rightarrow> execute float_str str_of t as)"

text \<open>
  The six conversions of the handler, read as one pass over the field names in the
  order of the source: the values converted so far, or the exception of the first
  field whose conversion raises.
\<close>

fun float_fields :: "(string \<Rightarrow> 'f option) \<Rightarrow> form \<Rightarrow> string list \<Rightarrow> error + 'f list" where
  "float_fields float_str frm [] = Inr []"
| "float_fields float_str frm (k # ks) =
     (case float_arg float_str (form_get frm k) of
        Inl e \<Rightarrow> Inl e
      | Inr v \<Rightarrow>
          (case float_fields float_str frm ks of
             Inl e \<Rightarrow> Inl e
           | Inr vs \<Rightarrow> Inr (v # vs)))"

text \<open>The arguments of the calls of \<open>model.predict\<close> among a list of effects.\<close>

fun predict_calls :: "('f, 'r) effect list \<Rightarrow> 'f list list list" where
  "predict_calls [] = []"
| "predict_calls (Predict_call X # es) = X # predict_calls es"
| "predict_calls (_ # es) = predict_calls es"

subsection \<open>Python's float on ASCII strings\<close>

text \<open>
  A model of the builtin \<open>float\<close> on a string of ASCII characters, after the
  language reference: surrounding whitespace is dropped; an underscore may stand
  between two digits; then an optional sign and one of \<open>inf\<close>, \<open>infinity\<close>,
  \<open>nan\<close> (in any case) or a decimal number, digits with an optional point and an
  optional exponent. A finite literal is kept as the rational number it denotes;
  the rounding to binary64 is not modelled.
\<close>

datatype sign = Plus | Minus

datatype pyfloat = Nan | Infinity sign | Number rat

definition is_space :: "char \<Rightarrow> bool" where
  "is_space c \<longleftrightarrow>
     (let n = (of_char c :: nat) in (9 \<le> n \<and> n \<le> 13) \<or> (28 \<le> n \<and> n \<le> 32))"

definition is_digit :: "char \<Rightarrow> bool" where
  "is_digit c \<longleftrightarrow> (let n = (of_char c :: nat) in 48 \<le> n \<and> n \<le> 57)"

definition lower :: "char \<Rightarrow> char" where
  "lower c = (let n = (of_char c :: nat) in if 65 \<le> n \<and> n \<le> 90 then char_of (n + 32) else c)"

definition strip :: "string \<Rightarrow> string" where
  "strip s = rev (dropWhile is_space (rev (dropWhile is_space s)))"

fun underscores_ok :: "char \<Rightarrow> string \<Rightarrow> bool" where
  "underscores_ok prev [] = (prev \<noteq> CHR ''_'')"
| "underscores_ok prev (c # cs) =
     ((if c = CHR ''_'' then is_digit prev
       else if prev = CHR ''_'' then is_digit c else True)
      \<and> underscores_ok c cs)"

definition digits_val :: "string \<Rightarrow> int" where
  "digits_val ds = foldl (\<lambda>a c. 10 * a + (of_char c - 48)) 0 ds"

definition scale10 :: "rat \<Rightarrow> int \<Rightarrow> rat" where
  "scale10 q e = (if 0 \<le> e then q * 10 ^ nat e else q / 10 ^ nat (- e))"

definition split_sign :: "string \<Rightarrow> sign \<times> string" where
  "split_sign s =
     (case s of
        [] \<Rightarrow> (Plus, [])
      | c # cs \<Rightarrow>
          if c = CHR ''-'' then (Minus, cs)
          else if c = CHR ''+'' then (Plus, cs)
          else (Plus, s))"

definition exponent :: "string \<Rightarrow> int option" where
  "exponent s =
     (let (sg, ds) = split_sign s
      in if ds \<noteq> [] \<and> list_all is_digit ds
         then Some (case sg of Plus \<Rightarrow> digits_val ds | Minus \<Rightarrow> - digits_val ds)
         else None)"

definition decimal :: "string \<Rightarrow> rat option" where
  "decimal s =
     (let is_e = (\<lambda>c. c = CHR ''e'' \<or> c = CHR ''E'');
          mant = takeWhile (\<lambda>c. \<not> is_e c) s;
          etail = dropWhile (\<lambda>c. \<not> is_e c) s;
          ip = takeWhile (\<lambda>c. c \<noteq> CHR ''.'') mant;
          ptail = dropWhile (\<lambda>c. c \<noteq> CHR ''.'') mant;
          fp = (if ptail = [] then [] else tl ptail)
      in if list_all is_digit ip \<and> list_all is_digit fp \<and> ip @ fp \<noteq> []
         then (case (if etail = [] then Some 0 else exponent (tl etail)) of
                 None \<Rightarrow> None
               | Some e \<Rightarrow> Some (scale10 (of_int (digits_val (ip @ fp))) (e - int (length fp))))
         else None)"

definition py_float :: "string \<Rightarrow> pyfloat option" where
  "py_float s =
     (let t = strip s
      in if t = [] \<or> \<not> underscores_ok (CHR 0x00) t then None
         else
           (let (sg, body) = split_sign (filter (\<lambda>c. c \<noteq> CHR ''_'') t);
                word = map lower body
            in if word = ''inf'' \<or> word = ''infinity'' then Some (Infinity sg)
               else if word = ''nan'' then Some Nan
               else (case decimal body of
                       None \<Rightarrow> None
                     | Some q \<Rightarrow> Some (Number (case sg of Plus \<Rightarrow> q | Minus \<Rightarrow> - q)))))"

subsection \<open>A predictor and a renderer to run the handler on\<close>

text \<open>
  The pickled artifact and numpy's rendering of its output are not part of the
  module. To run the handler on concrete requests, \<open>sum_model\<close> stands for the
  predictor (one prediction for each row: the sum of the row's components, each cut
  to a whole number, a component that is no number counting 0) and \<open>str_int\<close>,
  Python's \<open>str\<close> on an integer, for the renderer. Every theorem below is proved for
  all predictors and renderers; these two only instantiate them.
\<close>

definition whole :: "pyfloat \<Rightarrow> int" where
  "whole v = (case v of Number q \<Rightarrow> \<lfloor>q\<rfloor> | _ \<Rightarrow> 0)"

definition sum_model :: "pyfloat list list \<Rightarrow> int list" where
  "sum_model X = map (\<lambda>row. sum_list (map whole row)) X"

fun str_nat :: "nat \<Rightarrow> string" where
  "str_nat n =
     (if n < 10 then [''0123456789'' ! n]
      else str_nat (n div 10) @ [''0123456789'' ! (n mod 10)])"

definition str_int :: "int \<Rightarrow> string" where
  "str_int i = (if i < 0 then CHR ''-'' # str_nat (nat (- i)) else str_nat (nat i))"

definition scenario_form :: form where
  "scenario_form =
     [(''carlength'', ''170''), (''carwidth'', ''65''), (''carheight'', ''55''),
      (''enginesize'', ''130''), (''horsepower'', ''110''), (''peakrpm'', ''5500'')]"

definition serving :: "(pyfloat, int) process" where
  "serving = \<lparr>phase = Serving, model = Some sum_model, loads = 1, effects = []\<rparr>"

subsection \<open>The invariant of the process's life\<close>

text \<open>
  While the module is being imported the global is unbound and nothing has been
  loaded; while the application serves, the global is bound and exactly one load
  has happened; a process that has ended has loaded at most once.
\<close>

definition lifecycle_inv :: "('f, 'r) process \<Rightarrow> bool" where
  "lifecycle_inv s \<longleftrightarrow>
     (case phase s of
        Importing \<Rightarrow> model s = None \<and> loads s = 0
      | Serving \<Rightarrow> model s \<noteq> None \<and> loads s = 1
      | Exited \<Rightarrow> loads s \<le> 1)"

section \<open>Properties\<close>

subsection \<open>The handler, read through its six conversions\<close>

lemma float_arg_Inl_iff:
  "float_arg fs x = Inl e \<longleftrightarrow>
     (x = None \<and> e = TypeError) \<or> (\<exists>t. x = Some t \<and> fs t = None \<and> e = ValueError)"
  by (auto simp: float_arg_def split: option.splits)

lemma float_arg_Inr_iff:
  "float_arg fs x = Inr v \<longleftrightarrow> (\<exists>t. x = Some t \<and> fs t = Some v)"
  by (auto simp: float_arg_def split: option.splits)

lemma float_fields_names:
  "float_fields fs frm field_names =
     (case float_arg fs (form_get frm ''carlength'') of Inl e \<Rightarrow> Inl e | Inr v1 \<Rightarrow>
     (case float_arg fs (form_get frm ''carwidth'') of Inl e \<Rightarrow> Inl e | Inr v2 \<Rightarrow>
     (case float_arg fs (form_get frm ''carheight'') of Inl e \<Rightarrow> Inl e | Inr v3 \<Rightarrow>
     (case float_arg fs (form_get frm ''enginesize'') of Inl e \<Rightarrow> Inl e | Inr v4 \<Rightarrow>
     (case float_arg fs (form_get frm ''horsepower'') of Inl e \<Rightarrow> Inl e | Inr v5 \<Rightarrow>
     (case float_arg fs (form_get frm ''peakrpm'') of Inl e \<Rightarrow> Inl e | Inr v6 \<Rightarrow>
        Inr [v1, v2, v3, v4, v5, v6]))))))"
  by (simp add: field_names_def split: sum.split)

lemma predict_placement_Inl:
  "float_fields fs frm field_names = Inl e \<Longrightarrow> predict_placement fs so frm s = (Fault e, s)"
  unfolding float_fields_names predict_placement_def
  by (simp split: sum.split_asm)

lemma predict_placement_Inr:
  "float_fields fs frm field_names = Inr row \<Longrightarrow>
   predict_placement fs so frm s =
     (case model s of
        None \<Rightarrow> (Fault NameError, s\<lparr>effects := effects s @ [Print_input row]\<rparr>)
      | Some m \<Rightarrow>
          (case m [row] of
             [] \<Rightarrow> Fault IndexError
           | r # _ \<Rightarrow> Body (so r),
           s\<lparr>effects := effects s @ [Print_input row, Predict_call [row], Print_prediction (m [row])]\<rparr>))"
  unfolding float_fields_names predict_placement_def
  by (auto simp add: Let_def split: sum.split_asm option.split list.split)

lemma float_fields_Inl_iff:
  "(\<exists>e. float_fields fs frm ks = Inl e) \<longleftrightarrow>
     (\<exists>k\<in>set ks. \<exists>e. float_arg fs (form_get frm k) = Inl e)"
  by (induction ks) (auto split: sum.splits)

lemma float_fields_error_kind:
  "float_fields fs frm ks = Inl e \<Longrightarrow> e = TypeError \<or> e = ValueError"
  by (induction ks) (auto simp: float_arg_Inl_iff split: sum.splits)

lemma float_fields_cong:
  "\<forall>k\<in>set ks. form_get f1 k = form_get f2 k \<Longrightarrow> float_fields fs f1 ks = float_fields fs f2 ks"
  by (induction ks) (auto split: sum.splits)

lemma predict_calls_append: "predict_calls (xs @ ys) = predict_calls xs @ predict_calls ys"
  by (induction xs rule: predict_calls.induct) auto

lemma float_fields_six:
  assumes "float_arg fs (form_get frm ''carlength'') = Inr v1"
    and "float_arg fs (form_get frm ''carwidth'') = Inr v2"
    and "float_arg fs (form_get frm ''carheight'') = Inr v3"
    and "float_arg fs (form_get frm ''enginesize'') = Inr v4"
    and "float_arg fs (form_get frm ''horsepower'') = Inr v5"
    and "float_arg fs (form_get frm ''peakrpm'') = Inr v6"
  shows "float_fields fs frm field_names = Inr [v1, v2, v3, v4, v5, v6]"
  using assms by (simp add: float_fields_names)

lemma predict_placement_frame:
  "snd (predict_placement fs so frm s) = s\<lparr>effects := effects (snd (predict_placement fs so frm s))\<rparr>"
proof (cases "float_fields fs frm field_names")
  case (Inl e)
  then show ?thesis by (simp add: predict_placement_Inl)
next
  case (Inr row)
  then show ?thesis by (simp add: predict_placement_Inr split: option.split)
qed

lemma handle_frame:
  "snd (handle fs so s req) = s\<lparr>effects := effects (snd (handle fs so s req))\<rparr>"
  using predict_placement_frame [of fs so _ s]
  by (cases req) (simp_all add: handle_def index_def)

lemma handle_model: "model (snd (handle fs so s req)) = model s"
  by (subst handle_frame) simp

lemma handle_phase: "phase (snd (handle fs so s req)) = phase s"
  by (subst handle_frame) simp

lemma handle_loads: "loads (snd (handle fs so s req)) = loads s"
  by (subst handle_frame) simp

lemma serve_all_model: "model (serve_all fs so s reqs) = model s"
  by (induction reqs arbitrary: s) (simp_all add: handle_model)

lemma predict_placement_response_model:
  assumes "model s = model s'"
  shows "fst (predict_placement fs so frm s) = fst (predict_placement fs so frm s')"
proof (cases "float_fields fs frm field_names")
  case (Inl e)
  then show ?thesis by (simp add: predict_placement_Inl)
next
  case (Inr row)
  with assms show ?thesis by (simp add: predict_placement_Inr split: option.split)
qed


subsection \<open>The vector passed to the predictor\<close>

text \<open>
  Claim C1. When the predictor is loaded and the six fields carlength, carwidth,
  carheight, enginesize, horsepower, peakrpm convert to the floats \<open>v1\<close>, ...,
  \<open>v6\<close>, the handler performs exactly three effects: it prints the vector, calls
  the predictor once, with the single row \<open>[v1, v2, v3, v4, v5, v6]\<close> in this
  order, and prints the result; the response is the text of the first element
  \<open>r\<close> of what the predictor returned.
\<close>

theorem predict_called_once_in_field_order:
  assumes loaded: "model s = Some m"
    and "float_arg fs (form_get frm ''carlength'') = Inr v1"
    and "float_arg fs (form_get frm ''carwidth'') = Inr v2"
    and "float_arg fs (form_get frm ''carheight'') = Inr v3"
    and "float_arg fs (form_get frm ''enginesize'') = Inr v4"
    and "float_arg fs (form_get frm ''horsepower'') = Inr v5"
    and "float_arg fs (form_get frm ''peakrpm'') = Inr v6"
    and out: "m [[v1, v2, v3, v4, v5, v6]] = r # rs"
  shows "predict_placement fs so frm s =
           (Body (so r),
            s\<lparr>effects := effects s @
               [Print_input [v1, v2, v3, v4, v5, v6],
                Predict_call [[v1, v2, v3, v4, v5, v6]],
                Print_prediction (r # rs)]\<rparr>)
         \<and> predict_calls (effects (snd (predict_placement fs so frm s))) =
             predict_calls (effects s) @ [[[v1, v2, v3, v4, v5, v6]]]"
proof -
  have row: "float_fields fs frm field_names = Inr [v1, v2, v3, v4, v5, v6]"
    using assms(2-7) by (rule float_fields_six)
  have eq: "predict_placement fs so frm s =
           (Body (so r),
            s\<lparr>effects := effects s @
               [Print_input [v1, v2, v3, v4, v5, v6],
                Predict_call [[v1, v2, v3, v4, v5, v6]],
                Print_prediction (r # rs)]\<rparr>)"
    by (simp add: predict_placement_Inr [OF row] loaded out)
  show ?thesis
    by (simp add: eq predict_calls_append)
qed

text \<open>
  The scenario of the specification: the form carlength=170, carwidth=65,
  carheight=55, enginesize=130, horsepower=110, peakrpm=5500.
\<close>

theorem predict_called_once_in_field_order_witness:
  "model serving = Some sum_model
   \<and> float_arg py_float (form_get scenario_form ''carlength'') = Inr (Number 170)
   \<and> float_arg py_float (form_get scenario_form ''carwidth'') = Inr (Number 65)
   \<and> float_arg py_float (form_get scenario_form ''carheight'') = Inr (Number 55)
   \<and> float_arg py_float (form_get scenario_form ''enginesize'') = Inr (Number 130)
   \<and> float_arg py_float (form_get scenario_form ''horsepower'') = Inr (Number 110)
   \<and> float_arg py_float (form_get scenario_form ''peakrpm'') = Inr (Number 5500)
   \<and> sum_model [[Number 170, Number 65, Number 55, Number 130, Number 110, Number 5500]] = [6030]
   \<and> predict_placement py_float str_int scenario_form serving =
        (Body ''6030'',
         serving\<lparr>effects :=
            [Print_input [Number 170, Number 65, Number 55, Number 130, Number 110, Number 5500],
             Predict_call [[Number 170, Number 65, Number 55, Number 130, Number 110, Number 5500]],
             Print_prediction [6030]]\<rparr>)
   \<and> predict_calls (effects (snd (predict_placement py_float str_int scenario_form serving))) =
        [[[Number 170, Number 65, Number 55, Number 130, Number 110, Number 5500]]]"
proof -
  have m: "model serving = Some sum_model"
    by (simp add: serving_def)
  have f1: "float_arg py_float (form_get scenario_form ''carlength'') = Inr (Number 170)"
    by code_simp
  have f2: "float_arg py_float (form_get scenario_form ''carwidth'') = Inr (Number 65)"
    by code_simp
  have f3: "float_arg py_float (form_get scenario_form ''carheight'') = Inr (Number 55)"
    by code_simp
  have f4: "float_arg py_float (form_get scenario_form ''enginesize'') = Inr (Number 130)"
    by code_simp
  have f5: "float_arg py_float (form_get scenario_form ''horsepower'') = Inr (Number 110)"
    by code_simp
  have f6: "float_arg py_float (form_get scenario_form ''peakrpm'') = Inr (Number 5500)"
    by code_simp
  have out: "sum_model [[Number 170, Number 65, Number 55, Number 130, Number 110, Number 5500]]
               = [6030]"
    by (simp add: sum_model_def whole_def)
  have e: "effects serving = []"
    by (simp add: serving_def)
  have str: "str_int 6030 = ''6030''"
    by (simp add: str_int_def)
  show ?thesis
    using predict_called_once_in_field_order [OF m f1 f2 f3 f4 f5 f6 out, of str_int]
    by (simp add: m f1 f2 f3 f4 f5 f6 out e str)
qed

end
